theory Spec2Isabelle
  imports Complex_Main
begin

section \<open>Numbers\<close>

text \<open>
  The components compute with JavaScript numbers, which are IEEE 754 binary64 values. A
  finite number is modelled as the real it denotes.

  In \<open>canvas-element.tsx\<close> the arithmetic is subtraction, minimum and maximum. Every
  expression there is written with the operators and the bracketing of the source and
  is computed exactly; rounding, infinities and NaN are left out of that part of the
  model.

  In \<open>collaboration-cursors.tsx\<close> a quotient is multiplied by a coordinate, and the
  rounding of the quotient shows in the product. The two operations are therefore
  modelled as binary64 operations: the exact result, rounded to the nearest number
  with a 53-bit significand and an exponent no smaller than that of \<open>2^-1074\<close>, ties
  going to the even significand. A result that is not a finite number (an infinity
  after overflow or division by zero, or NaN) is \<open>None\<close>. The sign of a zero is not
  modelled.
\<close>

type_synonym number = real

text \<open>The number of binary digits of a positive integer.\<close>

function bit_length :: "int \<Rightarrow> nat" where
  "bit_length k = (if k \<le> 0 then 0 else Suc (bit_length (k div 2)))"
  by pat_completeness auto
termination
  by (relation "measure nat") auto

declare bit_length.simps [simp del]

text \<open>Rounding to the nearest integer, a tie going to the even one.\<close>

definition round_even :: "real \<Rightarrow> int" where
  "round_even r =
     (let f = \<lfloor>r\<rfloor>; d = r - of_int f
      in if d < 1 / 2 then f
         else if 1 / 2 < d then f + 1
         else if even f then f else f + 1)"

text \<open>
  Rounding a real to binary64. With \<open>s = |r| * 2^1074\<close>, the unit in the last place of
  the result is \<open>2^e / 2^1074\<close>, where \<open>e\<close> is the number of binary digits of \<open>s\<close> beyond
  53 (none for the subnormal numbers). The significand is \<open>s / 2^e\<close> rounded to an
  integer, and a rounded magnitude of \<open>2^1024\<close> or more has overflowed.
\<close>

definition binary64 :: "real \<Rightarrow> number option" where
  "binary64 r =
     (let s = \<bar>r\<bar> * 2 ^ 1074;
          e = bit_length \<lfloor>s\<rfloor> - 53;
          v = of_int (round_even (s / 2 ^ e)) * 2 ^ e / 2 ^ 1074
      in if v < 2 ^ 1024 then Some (sgn r * v) else None)"

text \<open>The operators \<open>*\<close> and \<open>/\<close> on finite numbers.\<close>

definition mul64 :: "number \<Rightarrow> number \<Rightarrow> number option" where
  "mul64 a b = binary64 (a * b)"

definition div64 :: "number \<Rightarrow> number \<Rightarrow> number option" where
  "div64 a b = (if b = 0 then None else binary64 (a / b))"

section \<open>collaboration-cursors.tsx\<close>

text \<open>
  Modelled from the spec: the type \<open>CursorPosition\<close> is imported from
  \<open>@/lib/realtime\<close>, a module that is not among the sources. The spec gives its shape as
  \<open>{ user: {id, name, avatar_url}, x, y }\<close>, which are exactly the fields the component
  reads; the avatar is optional there.
\<close>

record User =
  user_id :: string
  user_name :: string
  avatar_url :: "string option"

record CursorPosition =
  user :: User
  cursor_x :: number
  cursor_y :: number

definition cursorColors :: "string list" where
  "cursorColors =
     [''#3B82F6'', ''#8B5CF6'', ''#10B981'', ''#F97316'',
      ''#EF4444'', ''#EC4899'', ''#14B8A6'', ''#F59E0B'']"

text \<open>
  One marker per cursor: the React key, the \<open>left\<close> and \<open>top\<close> of its style (\<open>None\<close> when
  the computed value is not a finite number), the colour used for the pointer glyph and
  the badge, and the name shown in the badge.
\<close>

record marker =
  marker_key :: string
  marker_left :: "number option"
  marker_top :: "number option"
  marker_color :: string
  marker_label :: string

text \<open>
  \<open>c * (zoom / 100)\<close> as lines 39 and 40 bracket it: the quotient is computed and
  rounded first, then the product. A quotient that is not finite makes the product
  not finite.
\<close>

definition scaled :: "number \<Rightarrow> number \<Rightarrow> number option" where
  "scaled c zoom = (case div64 zoom 100 of None \<Rightarrow> None | Some q \<Rightarrow> mul64 c q)"

text \<open>The body of the callback given to \<open>cursors.map((cursor, index) => ...)\<close>.\<close>

definition cursorMarker :: "number \<Rightarrow> CursorPosition \<Rightarrow> nat \<Rightarrow> marker" where
  "cursorMarker zoom cursor index =
     (let color = cursorColors ! (index mod length cursorColors)
      in \<lparr> marker_key = user_id (user cursor),
           marker_left = scaled (cursor_x cursor) zoom,
           marker_top = scaled (cursor_y cursor) zoom,
           marker_color = color,
           marker_label = user_name (user cursor) \<rparr>)"

text \<open>\<open>Array.prototype.map\<close> with the index as second argument.\<close>

fun map_index :: "('a \<Rightarrow> nat \<Rightarrow> 'b) \<Rightarrow> nat \<Rightarrow> 'a list \<Rightarrow> 'b list" where
  "map_index f i [] = []"
| "map_index f i (x # xs) = f x i # map_index f (Suc i) xs"

definition CollaborationCursors :: "CursorPosition list \<Rightarrow> number \<Rightarrow> marker list" where
  "CollaborationCursors cursors zoom = map_index (cursorMarker zoom) 0 cursors"

section \<open>canvas-element.tsx: data\<close>

datatype priority = Low | Medium | High

record KanbanCard =
  card_id :: string
  card_title :: string
  card_description :: "string option"
  card_color :: "string option"
  card_priority :: "priority option"
  card_tags :: "string list option"

record KanbanColumn =
  column_id :: string
  column_title :: string
  cards :: "KanbanCard list"

record KanbanData =
  columns :: "KanbanColumn list"

datatype element_type =
  Rectangle | Circle | Text | Sticky | Frame | Line | Arrow | Pen | Kanban

record point =
  point_x :: number
  point_y :: number

text \<open>
  \<open>CanvasElementProps\<close> as the parent passes them: an optional property is \<open>None\<close> when it
  is absent (\<open>undefined\<close>). The two callbacks are optional as well; the model records
  whether each is supplied, and what the component calls (see \<open>call\<close> below).
\<close>

record CanvasElementProps =
  prop_id :: string
  prop_type :: element_type
  prop_x :: number
  prop_y :: number
  prop_width :: "number option"
  prop_height :: "number option"
  prop_content :: "string option"
  prop_color :: "string option"
  prop_strokeWidth :: "number option"
  prop_points :: "point list option"
  prop_rotation :: "number option"
  prop_locked :: "bool option"
  prop_kanbanData :: "KanbanData option"
  prop_onUpdate :: bool
  prop_onSelect :: bool
  prop_isSelected :: "bool option"
  prop_zoom :: "number option"

text \<open>A destructuring default: it applies exactly when the property is absent.\<close>

fun or_default :: "'a option \<Rightarrow> 'a \<Rightarrow> 'a" where
  "or_default None d = d"
| "or_default (Some v) d = v"

text \<open>The bindings of the component's parameter list (lines 45 to 63).\<close>

record element =
  el_id :: string
  el_type :: element_type
  el_x :: number
  el_y :: number
  el_width :: number
  el_height :: number
  el_content :: string
  el_color :: string
  el_strokeWidth :: number
  el_points :: "point list"
  el_rotation :: number
  el_locked :: bool
  el_kanbanData :: "KanbanData option"
  el_onUpdate :: bool
  el_onSelect :: bool
  el_isSelected :: bool
  el_zoom :: number

definition destructure :: "CanvasElementProps \<Rightarrow> element" where
  "destructure p =
     \<lparr> el_id = prop_id p,
       el_type = prop_type p,
       el_x = prop_x p,
       el_y = prop_y p,
       el_width = or_default (prop_width p) 100,
       el_height = or_default (prop_height p) 100,
       el_content = or_default (prop_content p) [],
       el_color = or_default (prop_color p) ''#6366f1'',
       el_strokeWidth = or_default (prop_strokeWidth p) 2,
       el_points = or_default (prop_points p) [],
       el_rotation = or_default (prop_rotation p) 0,
       el_locked = or_default (prop_locked p) False,
       el_kanbanData = prop_kanbanData p,
       el_onUpdate = prop_onUpdate p,
       el_onSelect = prop_onSelect p,
       el_isSelected = or_default (prop_isSelected p) False,
       el_zoom = or_default (prop_zoom p) 100 \<rparr>"

text \<open>
  What the component tells its parent. \<open>updates\<close> are the \<open>Partial<CanvasElementProps>\<close>
  objects the source builds: \<open>{x, y}\<close>, \<open>{content}\<close>, \<open>{locked}\<close> and \<open>{kanbanData}\<close>.
\<close>

datatype updates =
    Position number number
  | Content string
  | Locked bool
  | Board KanbanData

datatype call = OnUpdate string updates | OnSelect string

section \<open>canvas-element.tsx: local state and handlers\<close>

text \<open>
  The \<open>useState\<close> cells. Every setter call in the source passes a value (never an
  updater function), so a handler is a function from the current cells to the new ones.
\<close>

record offset =
  offset_x :: number
  offset_y :: number

record hooks =
  isDragging :: bool
  isResizing :: bool
  dragOffset :: offset
  isEditing :: bool
  isHovered :: bool

definition initial_hooks :: hooks where
  "initial_hooks =
     \<lparr> isDragging = False, isResizing = False,
       dragOffset = \<lparr> offset_x = 0, offset_y = 0 \<rparr>,
       isEditing = False, isHovered = False \<rparr>"

text \<open>
  A handler is a closure of the render that created it: it reads the props and the
  state cells of that render. \<open>scope\<close> is that pair. \<open>e.stopPropagation()\<close> has no
  effect inside the component and is not modelled.
\<close>

type_synonym scope = "element \<times> hooks"

text \<open>
  \<open>handleMouseDown\<close> (lines 71 to 80). The second component of the result tells whether
  \<open>setDragOffset\<close> was called: it is always called with a new object, which React's
  dependency comparison (\<open>Object.is\<close>) tells apart from the previous one.
\<close>

definition handleMouseDown ::
  "element \<Rightarrow> number \<Rightarrow> number \<Rightarrow> hooks \<Rightarrow> hooks \<times> bool \<times> call list" where
  "handleMouseDown el clientX clientY h =
     (if el_locked el then (h, False, [])
      else (h\<lparr> isDragging := True,
               dragOffset := \<lparr> offset_x = clientX - el_x el, offset_y = clientY - el_y el \<rparr> \<rparr>,
            True,
            if el_onSelect el then [OnSelect (el_id el)] else []))"

text \<open>\<open>handleDoubleClick\<close> (lines 82 to 88).\<close>

definition handleDoubleClick :: "element \<Rightarrow> hooks \<Rightarrow> hooks" where
  "handleDoubleClick el h =
     (if el_locked el then h
      else if el_type el = Text \<or> el_type el = Sticky then h\<lparr> isEditing := True \<rparr>
      else h)"

text \<open>
  \<open>handleMouseMove\<close> (lines 90 to 97): everything it tests and uses is read from the
  scope of the render that created it.
\<close>

definition handleMouseMove :: "scope \<Rightarrow> number \<Rightarrow> number \<Rightarrow> call list" where
  "handleMouseMove sc clientX clientY =
     (case sc of (el, h) \<Rightarrow>
        if isDragging h \<and> el_onUpdate el \<and> \<not> el_locked el
        then [OnUpdate (el_id el)
                (Position (clientX - offset_x (dragOffset h)) (clientY - offset_y (dragOffset h)))]
        else [])"

text \<open>\<open>handleMouseUp\<close> (lines 99 to 102).\<close>

definition handleMouseUp :: "hooks \<Rightarrow> hooks" where
  "handleMouseUp h = h\<lparr> isDragging := False, isResizing := False \<rparr>"

text \<open>\<open>handleContentChange\<close>, \<open>handleLockToggle\<close>, \<open>handleKanbanUpdate\<close> (lines 104 to 114).\<close>

definition handleContentChange :: "element \<Rightarrow> string \<Rightarrow> call list" where
  "handleContentChange el newContent =
     (if el_onUpdate el then [OnUpdate (el_id el) (Content newContent)] else [])"

definition handleLockToggle :: "element \<Rightarrow> call list" where
  "handleLockToggle el =
     (if el_onUpdate el then [OnUpdate (el_id el) (Locked (\<not> el_locked el))] else [])"

definition handleKanbanUpdate :: "element \<Rightarrow> KanbanData \<Rightarrow> call list" where
  "handleKanbanUpdate el newKanbanData =
     (if el_onUpdate el then [OnUpdate (el_id el) (Board newKanbanData)] else [])"

text \<open>The inline handlers of the JSX.\<close>

definition contentClick :: "element \<Rightarrow> hooks \<Rightarrow> hooks" where
  \<comment> \<open>line 403: \<open>onClick={() => !locked && setIsEditing(true)}\<close>\<close>
  "contentClick el h = (if \<not> el_locked el then h\<lparr> isEditing := True \<rparr> else h)"

definition textareaKeyDown :: "string \<Rightarrow> hooks \<Rightarrow> hooks" where
  \<comment> \<open>lines 352 to 354 and 394 to 396\<close>
  "textareaKeyDown key h = (if key = ''Escape'' then h\<lparr> isEditing := False \<rparr> else h)"

section \<open>canvas-element.tsx: the mounted component\<close>

text \<open>
  A mounted instance: the props of the latest render, the state cells, and what the
  effect of lines 117 to 126 has left behind. That effect has the dependency list
  \<open>[isDragging, isResizing, dragOffset]\<close>. React runs it after a render only when one
  of the three differs from the render before (the booleans by value, \<open>dragOffset\<close> by
  object identity); it then first runs the clean-up of the previous run, which removes
  the two document listeners, and, if \<open>isDragging || isResizing\<close>, registers
  \<open>handleMouseMove\<close> and \<open>handleMouseUp\<close> of the current render.

  \<open>listeners\<close> is the scope of the render whose two handlers are registered on the
  document, or \<open>None\<close> when none are. A render that does not re-run the effect leaves
  the registered handlers, and the scope they close over, as they are.
\<close>

record component =
  props :: CanvasElementProps
  state :: hooks
  effect_deps :: "bool \<times> bool"
  listeners :: "scope option"

definition mount :: "CanvasElementProps \<Rightarrow> component" where
  "mount p =
     \<lparr> props = p, state = initial_hooks, effect_deps = (False, False), listeners = None \<rparr>"

text \<open>
  The render that follows an event, and its effect. \<open>replaced\<close> tells whether the event's
  handler stored a new \<open>dragOffset\<close> object.
\<close>

definition commit :: "bool \<Rightarrow> component \<Rightarrow> component" where
  "commit replaced c =
     (let h = state c; deps = (isDragging h, isResizing h)
      in if replaced \<or> deps \<noteq> effect_deps c
         then c\<lparr> effect_deps := deps,
                 listeners := (if isDragging h \<or> isResizing h
                               then Some (destructure (props c), h) else None) \<rparr>
         else c)"

text \<open>
  The events the component reacts to. The first group are the React handlers of the
  JSX, the second the two document listeners, the last a render with new props from
  the parent.
\<close>

datatype event =
    MouseDown number number     \<comment> \<open>\<open>onMouseDown\<close> of the element, with \<open>clientX\<close>, \<open>clientY\<close>\<close>
  | DoubleClick                 \<comment> \<open>\<open>onDoubleClick\<close> of the element\<close>
  | ContentClick                \<comment> \<open>\<open>onClick\<close> of the content area (line 403)\<close>
  | MouseEnter
  | MouseLeave
  | Change string               \<comment> \<open>\<open>onChange\<close> of the textarea, with its new value\<close>
  | Blur                        \<comment> \<open>\<open>onBlur\<close> of the textarea\<close>
  | KeyDown string              \<comment> \<open>\<open>onKeyDown\<close> of the textarea, with \<open>e.key\<close>\<close>
  | LockClick                   \<comment> \<open>\<open>onClick\<close> of the lock button\<close>
  | BoardUpdate KanbanData      \<comment> \<open>\<open>onUpdate\<close> of the embedded board\<close>
  | DocumentMouseMove number number
  | DocumentMouseUp
  | Props CanvasElementProps

text \<open>
  One event: the handler runs; if it called a state setter, or the parent passed new
  props, the component renders again and the effect is checked. Handlers attached
  through JSX belong to the latest render, so they read the current props and state;
  the document listeners read the scope they were registered with. The state setters
  themselves are the same in every render, so \<open>handleMouseUp\<close> writes the current cells
  whichever render it comes from.
\<close>

definition step :: "component \<Rightarrow> event \<Rightarrow> component \<times> call list" where
  "step c ev =
     (let el = destructure (props c); h = state c in
      case ev of
        MouseDown clientX clientY \<Rightarrow>
          (case handleMouseDown el clientX clientY h of
             (h', replaced, calls) \<Rightarrow> (commit replaced (c\<lparr> state := h' \<rparr>), calls))
      | DoubleClick \<Rightarrow> (commit False (c\<lparr> state := handleDoubleClick el h \<rparr>), [])
      | ContentClick \<Rightarrow> (commit False (c\<lparr> state := contentClick el h \<rparr>), [])
      | MouseEnter \<Rightarrow> (commit False (c\<lparr> state := h\<lparr> isHovered := True \<rparr> \<rparr>), [])
      | MouseLeave \<Rightarrow> (commit False (c\<lparr> state := h\<lparr> isHovered := False \<rparr> \<rparr>), [])
      | Change newContent \<Rightarrow> (c, handleContentChange el newContent)
      | Blur \<Rightarrow> (commit False (c\<lparr> state := h\<lparr> isEditing := False \<rparr> \<rparr>), [])
      | KeyDown key \<Rightarrow> (commit False (c\<lparr> state := textareaKeyDown key h \<rparr>), [])
      | LockClick \<Rightarrow> (c, handleLockToggle el)
      | BoardUpdate newKanbanData \<Rightarrow> (c, handleKanbanUpdate el newKanbanData)
      | DocumentMouseMove clientX clientY \<Rightarrow>
          (case listeners c of
             None \<Rightarrow> (c, [])
           | Some sc \<Rightarrow> (c, handleMouseMove sc clientX clientY))
      | DocumentMouseUp \<Rightarrow>
          (case listeners c of
             None \<Rightarrow> (c, [])
           | Some sc \<Rightarrow> (commit False (c\<lparr> state := handleMouseUp h \<rparr>), []))
      | Props p \<Rightarrow> (commit False (c\<lparr> props := p \<rparr>), []))"

text \<open>A sequence of events, from left to right: the final component and all the calls.\<close>

fun run :: "component \<Rightarrow> event list \<Rightarrow> component \<times> call list" where
  "run c [] = (c, [])"
| "run c (ev # evs) =
     (case step c ev of (c', calls) \<Rightarrow>
        (case run c' evs of (c'', calls') \<Rightarrow> (c'', calls @ calls')))"

section \<open>canvas-element.tsx: rendering\<close>

text \<open>
  The rendered tree, reduced to what positions, sizes and fills it: the inline style of
  the element's root (\<open>left\<close>, \<open>top\<close>, \<open>width\<close>, \<open>height\<close>, rotation, colours), its
  children, and which handlers are attached. Class names and animation props carry no
  data and are left out. A style without \<open>width\<close> or \<open>height\<close> has \<open>None\<close> there.
\<close>

datatype css_length = Auto | Px number

text \<open>
  The \<open>d\<close> attribute of the pen's path, \<open>M x0,y0 L x1,y1 L ...\<close>: the template literal of
  line 522 joins the translated points with \<open>L\<close> after a leading \<open>M\<close>.
\<close>

datatype path_cmd = MoveTo number number | LineTo number number

fun path_d :: "(number \<times> number) list \<Rightarrow> path_cmd list" where
  "path_d [] = []"
| "path_d ((a, b) # ps) = MoveTo a b # map (\<lambda>(a, b). LineTo a b) ps"

datatype inner =
    FrameLabel
  | NoChildren
  | Textarea string
      \<comment> \<open>the editing surface, with its value\<close>
  | ContentDiv string bool
      \<comment> \<open>the displayed text, and whether the div has an \<open>onClick\<close>\<close>
  | LineSvg number number string number
      \<comment> \<open>svg width, \<open>x2\<close>, stroke, stroke width\<close>
  | ArrowSvg number number string number
      \<comment> \<open>svg width, \<open>x2\<close>, stroke, stroke width\<close>
  | PenSvg number number "path_cmd list" string number
      \<comment> \<open>svg width, svg height, \<open>d\<close>, stroke, stroke width\<close>
  | KanbanBoard "nat option" KanbanData bool
      \<comment> \<open>the task-count badge if rendered, then \<open>data\<close> and \<open>locked\<close> of the board\<close>

record node =
  node_left :: number
  node_top :: number
  node_width :: "css_length option"
  node_height :: "css_length option"
  node_rotation :: number
  node_backgroundColor :: "string option"
  node_borderColor :: "string option"
  node_inner :: inner
  node_onDoubleClick :: bool
  node_handles :: nat

text \<open>\<open>Math.min(x, ...xs)\<close> and \<open>Math.max(x, ...xs)\<close> on at least one argument.\<close>

definition Math_min :: "number \<Rightarrow> number list \<Rightarrow> number" where
  "Math_min x xs = foldl min x xs"

definition Math_max :: "number \<Rightarrow> number list \<Rightarrow> number" where
  "Math_max x xs = foldl max x xs"

text \<open>The \<open>reduce\<close> of line 163.\<close>

definition taskCount :: "KanbanData \<Rightarrow> nat" where
  "taskCount kanbanData =
     foldl (\<lambda>total col. total + length (cards col)) 0 (columns kanbanData)"

text \<open>\<open>content || 'Double-click to edit'\<close> and \<open>color || '#fbbf24'\<close>: the empty string is falsy.\<close>

definition or_else :: "string \<Rightarrow> string \<Rightarrow> string" where
  "or_else s d = (if s = [] then d else s)"

text \<open>The resize handles under \<open>isSelected && !locked\<close>.\<close>

definition handles :: "element \<Rightarrow> nat \<Rightarrow> nat" where
  "handles el n = (if el_isSelected el \<and> \<not> el_locked el then n else 0)"

text \<open>\<open>renderKanbanBoard\<close> (lines 128 to 193).\<close>

definition renderKanbanBoard :: "element \<Rightarrow> hooks \<Rightarrow> node option" where
  "renderKanbanBoard el h =
     (case el_kanbanData el of
        None \<Rightarrow> None
      | Some kanbanData \<Rightarrow>
          Some \<lparr> node_left = el_x el, node_top = el_y el,
                 node_width = Some (Px (el_width el)), node_height = Some (Px (el_height el)),
                 node_rotation = el_rotation el,
                 node_backgroundColor = None, node_borderColor = None,
                 node_inner =
                   KanbanBoard (if \<not> el_locked el then Some (taskCount kanbanData) else None)
                     kanbanData (el_locked el),
                 node_onDoubleClick = False,
                 node_handles = handles el 4 \<rparr>)"

text \<open>
  The \<open>pen\<close> case (lines 491 to 531). The guard \<open>points.length < 2\<close> returns \<open>null\<close>; past
  it the list has a first point, so the four spreads have at least one argument.
\<close>

definition renderPen :: "element \<Rightarrow> node option" where
  "renderPen el =
     (let points = el_points el in
      if length points < 2 then None
      else case points of
        [] \<Rightarrow> None
      | p # ps \<Rightarrow>
          (let minX = Math_min (point_x p) (map point_x ps);
               minY = Math_min (point_y p) (map point_y ps);
               maxX = Math_max (point_x p) (map point_x ps);
               maxY = Math_max (point_y p) (map point_y ps)
           in Some \<lparr> node_left = minX, node_top = minY,
                      node_width = Some (Px (maxX - minX)),
                      node_height = Some (Px (maxY - minY)),
                      node_rotation = el_rotation el,
                      node_backgroundColor = None, node_borderColor = None,
                      node_inner =
                        PenSvg (maxX - minX) (maxY - minY)
                          (path_d (map (\<lambda>p. (point_x p - minX, point_y p - minY)) points))
                          (el_color el) (el_strokeWidth el),
                      node_onDoubleClick = False,
                      node_handles = 0 \<rparr>))"

text \<open>
  \<open>renderElement\<close> (lines 195 to 536): the kanban test first, then the \<open>switch\<close>, whose
  \<open>default\<close> branch is all that is left for \<open>kanban\<close>.
\<close>

definition renderElement :: "element \<Rightarrow> hooks \<Rightarrow> node option" where
  "renderElement el h =
     (if el_type el = Kanban then renderKanbanBoard el h
      else case el_type el of
        Frame \<Rightarrow>
          Some \<lparr> node_left = el_x el, node_top = el_y el,
                 node_width = Some (Px (el_width el)), node_height = Some (Px (el_height el)),
                 node_rotation = el_rotation el,
                 node_backgroundColor = None, node_borderColor = Some (el_color el),
                 node_inner = FrameLabel,
                 node_onDoubleClick = True,
                 node_handles = handles el 4 \<rparr>
      | Rectangle \<Rightarrow>
          Some \<lparr> node_left = el_x el, node_top = el_y el,
                 node_width = Some (Px (el_width el)), node_height = Some (Px (el_height el)),
                 node_rotation = el_rotation el,
                 node_backgroundColor = Some (el_color el @ ''20''),
                 node_borderColor = Some (el_color el),
                 node_inner = NoChildren,
                 node_onDoubleClick = False,
                 node_handles = handles el 4 \<rparr>
      | Circle \<Rightarrow>
          Some \<lparr> node_left = el_x el, node_top = el_y el,
                 node_width = Some (Px (el_width el)), node_height = Some (Px (el_height el)),
                 node_rotation = el_rotation el,
                 node_backgroundColor = Some (el_color el @ ''20''),
                 node_borderColor = Some (el_color el),
                 node_inner = NoChildren,
                 node_onDoubleClick = False,
                 node_handles = handles el 4 \<rparr>
      | Text \<Rightarrow>
          Some \<lparr> node_left = el_x el, node_top = el_y el,
                 node_width = Some (if el_width el = 100 then Auto else Px (el_width el)),
                 node_height = Some (if el_height el = 100 then Auto else Px (el_height el)),
                 node_rotation = el_rotation el,
                 node_backgroundColor = None, node_borderColor = None,
                 node_inner =
                   (if isEditing h then Textarea (el_content el)
                    else ContentDiv (or_else (el_content el) ''Double-click to edit'') False),
                 node_onDoubleClick = True,
                 node_handles = 0 \<rparr>
      | Sticky \<Rightarrow>
          Some \<lparr> node_left = el_x el, node_top = el_y el,
                 node_width = Some (Px (el_width el)), node_height = Some (Px (el_height el)),
                 node_rotation = el_rotation el,
                 node_backgroundColor = Some (or_else (el_color el) ''#fbbf24''),
                 node_borderColor = None,
                 node_inner =
                   (if isEditing h then Textarea (el_content el)
                    else ContentDiv (or_else (el_content el) ''Double-click to edit'') True),
                 node_onDoubleClick = True,
                 node_handles = handles el 2 \<rparr>
      | Line \<Rightarrow>
          Some \<lparr> node_left = el_x el, node_top = el_y el,
                 node_width = None, node_height = None,
                 node_rotation = el_rotation el,
                 node_backgroundColor = None, node_borderColor = None,
                 node_inner = LineSvg (el_width el) (el_width el) (el_color el) (el_strokeWidth el),
                 node_onDoubleClick = False,
                 node_handles = 0 \<rparr>
      | Arrow \<Rightarrow>
          Some \<lparr> node_left = el_x el, node_top = el_y el,
                 node_width = None, node_height = None,
                 node_rotation = el_rotation el,
                 node_backgroundColor = None, node_borderColor = None,
                 node_inner =
                   ArrowSvg (el_width el) (el_width el - 12) (el_color el) (el_strokeWidth el),
                 node_onDoubleClick = False,
                 node_handles = 0 \<rparr>
      | Pen \<Rightarrow> renderPen el
      | _ \<Rightarrow> None)"

text \<open>The lock button of the controls (lines 543 to 561).\<close>

record controls =
  controls_left :: number
  controls_top :: number
  controls_title :: string

record view =
  view_element :: "node option"
  view_controls :: "controls option"

text \<open>The component's return value (lines 538 to 563), for a mounted instance.\<close>

definition CanvasElement :: "component \<Rightarrow> view" where
  "CanvasElement c =
     (let el = destructure (props c); h = state c in
      \<lparr> view_element = renderElement el h,
        view_controls =
          (if (el_isSelected el \<or> isHovered h) \<and> el_type el \<noteq> Kanban
           then Some \<lparr> controls_left = el_x el, controls_top = el_y el - 48,
                       controls_title = (if el_locked el then ''Unlock'' else ''Lock'') \<rparr>
           else None) \<rparr>)"

text \<open>
  An event of the JSX can only come from a node that the current view contains; the
  document listeners and the parent are always there.
\<close>

definition has_textarea :: "node \<Rightarrow> bool" where
  "has_textarea n = (case node_inner n of Textarea v \<Rightarrow> True | _ \<Rightarrow> False)"

definition has_content_click :: "node \<Rightarrow> bool" where
  "has_content_click n = (case node_inner n of ContentDiv t clickable \<Rightarrow> clickable | _ \<Rightarrow> False)"

definition has_board :: "node \<Rightarrow> bool" where
  "has_board n = (case node_inner n of KanbanBoard b d l \<Rightarrow> True | _ \<Rightarrow> False)"

definition on_node :: "view \<Rightarrow> (node \<Rightarrow> bool) \<Rightarrow> bool" where
  "on_node v test = (case view_element v of None \<Rightarrow> False | Some n \<Rightarrow> test n)"

fun enabled :: "view \<Rightarrow> event \<Rightarrow> bool" where
  "enabled v (MouseDown clientX clientY) = on_node v (\<lambda>n. True)"
| "enabled v DoubleClick = on_node v node_onDoubleClick"
| "enabled v ContentClick = on_node v has_content_click"
| "enabled v MouseEnter = on_node v (\<lambda>n. True)"
| "enabled v MouseLeave = on_node v (\<lambda>n. True)"
| "enabled v (Change newContent) = on_node v has_textarea"
| "enabled v Blur = on_node v has_textarea"
| "enabled v (KeyDown key) = on_node v has_textarea"
| "enabled v LockClick = (view_controls v \<noteq> None)"
| "enabled v (BoardUpdate newKanbanData) = on_node v has_board"
| "enabled v (DocumentMouseMove clientX clientY) = True"
| "enabled v DocumentMouseUp = True"
| "enabled v (Props p) = True"

definition fire :: "component \<Rightarrow> event \<Rightarrow> component \<times> call list" where
  "fire c ev = (if enabled (CanvasElement c) ev then step c ev else (c, []))"

section \<open>Vocabulary of the properties\<close>

text \<open>Whether the latest props lock the element.\<close>

definition locked :: "component \<Rightarrow> bool" where
  "locked c = el_locked (destructure (props c))"

text \<open>
  Whether the dependencies recorded by the last effect run are those of the current
  state, as they are after every render.
\<close>

definition in_sync :: "component \<Rightarrow> bool" where
  "in_sync c = (effect_deps c = (isDragging (state c), isResizing (state c)))"

text \<open>
  The events that neither end a drag (the pointer going up) nor start a new one (another
  pointer-down, which captures a new offset).
\<close>

fun continues_drag :: "event \<Rightarrow> bool" where
  "continues_drag (MouseDown clientX clientY) = False"
| "continues_drag DocumentMouseUp = False"
| "continues_drag ev = True"

text \<open>The events that leave the element locked: new props must still say \<open>locked\<close>.\<close>

fun keeps_locked :: "event \<Rightarrow> bool" where
  "keeps_locked (Props p) = el_locked (destructure p)"
| "keeps_locked ev = True"

text \<open>
  The expression \<open>c * z / 100\<close> of the specification, evaluated as JavaScript would
  evaluate it, from left to right: the product is computed and rounded first, then the
  quotient. It is here to be compared with \<open>scaled\<close>; the component does not compute it.
\<close>

definition scaled_product_first :: "number \<Rightarrow> number \<Rightarrow> number option" where
  "scaled_product_first c zoom =
     (case mul64 c zoom of None \<Rightarrow> None | Some p \<Rightarrow> div64 p 100)"

subsection \<open>Sample inputs\<close>

text \<open>
  An element of a given kind at \<open>(10, 20)\<close>, with both callbacks and every optional
  property absent, and a board of two columns holding two cards and one card.
\<close>

definition sample_props :: "element_type \<Rightarrow> CanvasElementProps" where
  "sample_props t =
     \<lparr> prop_id = ''e1'', prop_type = t, prop_x = 10, prop_y = 20,
       prop_width = None, prop_height = None, prop_content = None, prop_color = None,
       prop_strokeWidth = None, prop_points = None, prop_rotation = None,
       prop_locked = None, prop_kanbanData = None,
       prop_onUpdate = True, prop_onSelect = True,
       prop_isSelected = None, prop_zoom = None \<rparr>"

definition sample_cursor :: "number \<Rightarrow> number \<Rightarrow> CursorPosition" where
  "sample_cursor x y =
     \<lparr> user = \<lparr> user_id = ''u1'', user_name = ''Ada'', avatar_url = None \<rparr>,
       cursor_x = x, cursor_y = y \<rparr>"

definition sample_card :: "string \<Rightarrow> KanbanCard" where
  "sample_card i =
     \<lparr> card_id = i, card_title = ''Task'', card_description = None, card_color = None,
       card_priority = None, card_tags = None \<rparr>"

definition sample_board :: KanbanData where
  "sample_board =
     \<lparr> columns =
         [\<lparr> column_id = ''todo'', column_title = ''To do'',
             cards = [sample_card ''c1'', sample_card ''c2''] \<rparr>,
          \<lparr> column_id = ''done'', column_title = ''Done'', cards = [sample_card ''c3''] \<rparr>] \<rparr>"

section \<open>Properties of the cursor overlay\<close>

lemma length_map_index: "length (map_index f i xs) = length xs"
  by (induction xs arbitrary: i) simp_all

lemma nth_map_index: "k < length xs \<Longrightarrow> map_index f i xs ! k = f (xs ! k) (i + k)"
proof (induction xs arbitrary: i k)
  case Nil
  then show ?case by simp
next
  case (Cons x xs)
  show ?case
  proof (cases k)
    case 0
    then show ?thesis by simp
  next
    case (Suc j)
    with Cons.prems have "j < length xs" by simp
    from Cons.IH [OF this, of "Suc i"] Suc show ?thesis by simp
  qed
qed

lemma length_cursorColors: "length cursorColors = 8"
  by (simp add: cursorColors_def)

lemma nth_CollaborationCursors:
  "i < length cursors \<Longrightarrow>
     CollaborationCursors cursors zoom ! i = cursorMarker zoom (cursors ! i) i"
  by (simp add: CollaborationCursors_def nth_map_index)

lemma length_CollaborationCursors:
  "length (CollaborationCursors cursors zoom) = length cursors"
  by (simp add: CollaborationCursors_def length_map_index)

lemma bit_length_bounds:
  "2 ^ n \<le> k \<Longrightarrow> k < 2 ^ Suc n \<Longrightarrow> bit_length k = Suc n"
proof (induction n arbitrary: k)
  case 0
  then have "k = 1" by simp
  then show ?case
    by (simp add: bit_length.simps [of 1] bit_length.simps [of 0])
next
  case (Suc n)
  have "(0::int) < 2 ^ Suc n" by simp
  with Suc.prems have pos: "0 < k" by linarith
  from Suc.prems have "2 ^ n \<le> k div 2" and "k div 2 < 2 ^ Suc n"
    by simp_all
  then have "bit_length (k div 2) = Suc n" by (rule Suc.IH)
  with pos show ?case
    by (simp add: bit_length.simps [of k])
qed

text \<open>
  Rounding in the binade \<open>[2^p, 2^(p+1))\<close>: the significand is \<open>|r| * 2^52 / 2^p\<close>
  rounded to an integer.
\<close>

lemma binary64_normal:
  assumes lo: "2 ^ p \<le> \<bar>r\<bar>" and hi: "\<bar>r\<bar> < 2 ^ Suc p"
  shows "binary64 r =
     (let v = of_int (round_even (\<bar>r\<bar> * 2 ^ 52 / 2 ^ p)) * 2 ^ p / 2 ^ 52
      in if v < 2 ^ 1024 then Some (sgn r * v) else None)"
proof -
  let ?s = "\<bar>r\<bar> * 2 ^ 1074"
  have "(2::real) ^ (p + 1074) \<le> ?s"
    using lo by (simp only: power_add) (simp add: mult_right_mono)
  then have a: "2 ^ (p + 1074) \<le> \<lfloor>?s\<rfloor>"
    by (simp only: le_floor_iff) simp
  have "?s < 2 ^ Suc (p + 1074)"
    using hi by (simp only: power_add power_Suc) (simp add: mult_strict_right_mono)
  then have b: "\<lfloor>?s\<rfloor> < 2 ^ Suc (p + 1074)"
    by (simp only: floor_less_iff) simp
  from bit_length_bounds [OF a b] have e: "bit_length \<lfloor>?s\<rfloor> - 53 = p + 1022"
    by simp
  have split: "(2::real) ^ 1074 = 2 ^ 52 * 2 ^ 1022"
    by (simp only: power_add [symmetric]) simp
  have q: "?s / 2 ^ (p + 1022) = \<bar>r\<bar> * 2 ^ 52 / 2 ^ p"
    by (simp only: split power_add) simp
  have v: "of_int m * (2::real) ^ (p + 1022) / 2 ^ 1074 = of_int m * 2 ^ p / 2 ^ 52"
    for m :: int
    by (simp only: split power_add) simp
  show ?thesis
    unfolding binary64_def Let_def e q v ..
qed

lemma div64_110_100: "div64 110 100 = Some (4953959590107546 / 2 ^ 52)"
  using binary64_normal [of 0 "110 / 100"]
  by (simp add: div64_def round_even_def Let_def)

lemma mul64_3_scale: "mul64 3 (4953959590107546 / 2 ^ 52) = Some (7430939385161319 / 2 ^ 51)"
  using binary64_normal [of 1 "3 * (4953959590107546 / 2 ^ 52)"]
  by (simp add: mul64_def round_even_def Let_def)

lemma mul64_3_110: "mul64 3 110 = Some 330"
  using binary64_normal [of 8 "3 * 110"]
  by (simp add: mul64_def round_even_def Let_def)

lemma div64_330_100: "div64 330 100 = Some (7430939385161318 / 2 ^ 51)"
  using binary64_normal [of 1 "330 / 100"]
  by (simp add: div64_def round_even_def Let_def)

lemma div64_150_100: "div64 150 100 = Some (3 / 2)"
  using binary64_normal [of 0 "150 / 100"]
  by (simp add: div64_def round_even_def Let_def)

lemma mul64_30_scale: "mul64 30 (3 / 2) = Some 45"
  using binary64_normal [of 5 "30 * (3 / 2)"]
  by (simp add: mul64_def round_even_def Let_def)

lemma mul64_8_scale: "mul64 8 (3 / 2) = Some 12"
  using binary64_normal [of 3 "8 * (3 / 2)"]
  by (simp add: mul64_def round_even_def Let_def)

text \<open>
  Claim C7, as stated, fails at \<open>x = 3\<close> and zoom 110. The component computes
  \<open>3 * (110 / 100)\<close>: the quotient rounds to \<open>4953959590107546 / 2^52\<close>, just above 1.1,
  and the product is \<open>7430939385161319 / 2^51\<close>, which prints as 3.3000000000000003.
  The claim's \<open>3 * 110 / 100\<close> is \<open>330 / 100\<close>, which rounds to
  \<open>7430939385161318 / 2^51\<close> and prints as 3.3; and the rendered value is not the exact
  quotient 33/10 either.
\<close>

theorem cursor_position_rounds_quotient_first:
  "marker_left (CollaborationCursors [sample_cursor 3 3] 110 ! 0) =
     Some (7430939385161319 / 2 ^ 51) \<and>
   scaled_product_first 3 110 = Some (7430939385161318 / 2 ^ 51) \<and>
   marker_left (CollaborationCursors [sample_cursor 3 3] 110 ! 0) \<noteq>
     scaled_product_first 3 110 \<and>
   marker_left (CollaborationCursors [sample_cursor 3 3] 110 ! 0) \<noteq> Some (3 * 110 / 100)"
proof -
  have "marker_left (CollaborationCursors [sample_cursor 3 3] 110 ! 0) = scaled 3 110"
    by (simp add: CollaborationCursors_def cursorMarker_def Let_def sample_cursor_def)
  also have "scaled 3 110 = Some (7430939385161319 / 2 ^ 51)"
    unfolding scaled_def div64_110_100 by (simp only: option.case mul64_3_scale)
  finally have code: "marker_left (CollaborationCursors [sample_cursor 3 3] 110 ! 0) =
      Some (7430939385161319 / 2 ^ 51)" .
  have spec: "scaled_product_first 3 110 = Some (7430939385161318 / 2 ^ 51)"
    unfolding scaled_product_first_def mul64_3_110 by (simp only: option.case div64_330_100)
  show ?thesis
    unfolding code spec by simp
qed

text \<open>
  Claim C7, amended. For every cursor entry with raw coordinates \<open>(x, y)\<close> and every zoom
  percentage \<open>z\<close>, the marker is placed at \<open>(x * (z / 100), y * (z / 100))\<close> in the
  component's own bracketing and arithmetic: \<open>z / 100\<close> is computed and rounded first,
  then each coordinate is multiplied by it and the product rounded.
\<close>

theorem cursor_marker_scaled:
  "i < length cursors \<Longrightarrow>
     marker_left (CollaborationCursors cursors zoom ! i) =
       (case div64 zoom 100 of None \<Rightarrow> None | Some q \<Rightarrow> mul64 (cursor_x (cursors ! i)) q) \<and>
     marker_top (CollaborationCursors cursors zoom ! i) =
       (case div64 zoom 100 of None \<Rightarrow> None | Some q \<Rightarrow> mul64 (cursor_y (cursors ! i)) q)"
  by (simp add: nth_CollaborationCursors cursorMarker_def Let_def scaled_def)

theorem cursor_marker_scaled_witness:
  "marker_left (CollaborationCursors [sample_cursor 40 10, sample_cursor 30 8] 150 ! 1) =
     Some 45 \<and>
   marker_top (CollaborationCursors [sample_cursor 40 10, sample_cursor 30 8] 150 ! 1) =
     Some 12"
  using cursor_marker_scaled
    [where i = 1 and cursors = "[sample_cursor 40 10, sample_cursor 30 8]" and zoom = 150]
  by (simp add: sample_cursor_def div64_150_100 mul64_30_scale mul64_8_scale)

text \<open>
  Claim C8. The palette has eight colours, the \<open>i\<close>-th marker takes the colour at index
  \<open>i mod 8\<close>, and the colours of a list depend on nothing but its length: two lists of
  the same length, whatever the collaborators, coordinates and zoom, are coloured alike.
\<close>

theorem cursor_marker_color:
  "length cursorColors = 8 \<and>
   (i < length cursors \<longrightarrow>
      marker_color (CollaborationCursors cursors zoom ! i) = cursorColors ! (i mod 8)) \<and>
   (length cursors' = length cursors \<longrightarrow>
      map marker_color (CollaborationCursors cursors' zoom') =
      map marker_color (CollaborationCursors cursors zoom))"
proof (intro conjI impI)
  show "length cursorColors = 8" by (rule length_cursorColors)
next
  assume "i < length cursors"
  then show "marker_color (CollaborationCursors cursors zoom ! i) = cursorColors ! (i mod 8)"
    by (simp add: nth_CollaborationCursors cursorMarker_def Let_def length_cursorColors)
next
  assume len: "length cursors' = length cursors"
  show "map marker_color (CollaborationCursors cursors' zoom') =
        map marker_color (CollaborationCursors cursors zoom)"
  proof (rule nth_equalityI)
    show "length (map marker_color (CollaborationCursors cursors' zoom')) =
          length (map marker_color (CollaborationCursors cursors zoom))"
      by (simp add: length_CollaborationCursors len)
  next
    fix k assume "k < length (map marker_color (CollaborationCursors cursors' zoom'))"
    then have i: "k < length cursors'"
      by (simp add: length_CollaborationCursors)
    with len have i': "k < length cursors" by simp
    from i i' show "map marker_color (CollaborationCursors cursors' zoom') ! k =
          map marker_color (CollaborationCursors cursors zoom) ! k"
      by (simp add: length_CollaborationCursors nth_CollaborationCursors
          cursorMarker_def Let_def)
  qed
qed

theorem cursor_marker_color_witness:
  "marker_color (CollaborationCursors
      (replicate 10 \<lparr> user = \<lparr> user_id = ''u'', user_name = ''Ada'', avatar_url = None \<rparr>,
          cursor_x = 0, cursor_y = 0 \<rparr>) 100 ! 9) = ''#8B5CF6'' \<and>
   map marker_color (CollaborationCursors
      [\<lparr> user = \<lparr> user_id = ''u1'', user_name = ''Ada'', avatar_url = None \<rparr>,
          cursor_x = 40, cursor_y = 10 \<rparr>] 150) =
   map marker_color (CollaborationCursors
      [\<lparr> user = \<lparr> user_id = ''u2'', user_name = ''Bob'', avatar_url = Some ''b.png'' \<rparr>,
          cursor_x = 3, cursor_y = 4 \<rparr>] 100)"
  using cursor_marker_color
    [of 9 "replicate 10 \<lparr> user = \<lparr> user_id = ''u'', user_name = ''Ada'', avatar_url = None \<rparr>,
          cursor_x = 0, cursor_y = 0 \<rparr>" 100 "[]" 0]
    cursor_marker_color
    [of 0 "[\<lparr> user = \<lparr> user_id = ''u2'', user_name = ''Bob'', avatar_url = Some ''b.png'' \<rparr>,
          cursor_x = 3, cursor_y = 4 \<rparr>]" 100
        "[\<lparr> user = \<lparr> user_id = ''u1'', user_name = ''Ada'', avatar_url = None \<rparr>,
          cursor_x = 40, cursor_y = 10 \<rparr>]" 150]
  by (simp add: cursorColors_def)

section \<open>Properties of the interaction lifecycle\<close>

lemma commit_same: "in_sync c \<Longrightarrow> commit False c = c"
  by (simp add: commit_def in_sync_def Let_def)

lemma state_commit [simp]: "state (commit r c) = state c"
  by (simp add: commit_def Let_def)

lemma props_commit [simp]: "props (commit r c) = props c"
  by (simp add: commit_def Let_def)

lemma in_sync_commit [simp]: "in_sync (commit r c)"
  by (simp add: commit_def in_sync_def Let_def)

lemma step_continues:
  assumes "continues_drag ev" and "in_sync c" and "listeners c = Some sc"
  shows "in_sync (fst (step c ev)) \<and> listeners (fst (step c ev)) = Some sc \<and>
         isDragging (state (fst (step c ev))) = isDragging (state c)"
  using assms
  by (cases ev)
     (auto simp: step_def Let_def commit_def in_sync_def handleDoubleClick_def
        contentClick_def textareaKeyDown_def)

lemma run_continues:
  assumes "\<forall>ev \<in> set evs. continues_drag ev" and "in_sync c" and "listeners c = Some sc"
  shows "in_sync (fst (run c evs)) \<and> listeners (fst (run c evs)) = Some sc \<and>
         isDragging (state (fst (run c evs))) = isDragging (state c)"
  using assms
proof (induction evs arbitrary: c)
  case Nil
  then show ?case by simp
next
  case (Cons ev evs)
  from Cons.prems have ev: "continues_drag ev" and rest: "\<forall>e \<in> set evs. continues_drag e"
    by simp_all
  from step_continues [OF ev Cons.prems(2) Cons.prems(3)]
  have s: "in_sync (fst (step c ev))" "listeners (fst (step c ev)) = Some sc"
    "isDragging (state (fst (step c ev))) = isDragging (state c)" by simp_all
  from Cons.IH [OF rest s(1) s(2)] s(3) show ?case
    by (simp add: split_beta)
qed

lemma step_MouseDown_unlocked:
  assumes "\<not> locked c"
  shows "fst (step c (MouseDown px py)) =
           c\<lparr> state := (state c)\<lparr> isDragging := True,
                  dragOffset := \<lparr> offset_x = px - prop_x (props c),
                                  offset_y = py - prop_y (props c) \<rparr> \<rparr>,
              effect_deps := (True, isResizing (state c)),
              listeners := Some (destructure (props c),
                 (state c)\<lparr> isDragging := True,
                  dragOffset := \<lparr> offset_x = px - prop_x (props c),
                                  offset_y = py - prop_y (props c) \<rparr> \<rparr>) \<rparr>"
  using assms
  by (simp add: step_def Let_def handleMouseDown_def commit_def locked_def destructure_def)

lemma fst_run_append: "fst (run c (xs @ ys)) = fst (run (fst (run c xs)) ys)"
  by (induction xs arbitrary: c) (simp_all add: split_beta)

lemma props_step:
  "props (fst (step c ev)) = (case ev of Props p \<Rightarrow> p | _ \<Rightarrow> props c)"
  by (cases ev) (simp_all add: step_def Let_def split_beta split: option.split)

lemma step_keeps_locked:
  "locked c \<Longrightarrow> keeps_locked ev \<Longrightarrow> locked (fst (step c ev))"
  by (cases ev) (simp_all add: locked_def props_step)

lemma run_keeps_locked:
  "locked c \<Longrightarrow> \<forall>ev \<in> set evs. keeps_locked ev \<Longrightarrow> locked (fst (run c evs))"
  by (induction evs arbitrary: c) (simp_all add: split_beta step_keeps_locked)

lemma move_in_drag:
  assumes "listeners c = Some (el, h)" and "isDragging h" and "el_onUpdate el"
    and "\<not> el_locked el"
  shows "snd (step c (DocumentMouseMove px2 py2)) =
           [OnUpdate (el_id el)
              (Position (px2 - offset_x (dragOffset h)) (py2 - offset_y (dragOffset h)))]"
  using assms by (simp add: step_def Let_def handleMouseMove_def)

lemma up_ends_drag:
  assumes "listeners c = Some sc" and "in_sync c" and "isDragging (state c)"
  shows "\<not> isDragging (state (fst (step c DocumentMouseUp))) \<and>
         \<not> isResizing (state (fst (step c DocumentMouseUp))) \<and>
         listeners (fst (step c DocumentMouseUp)) = None"
  using assms by (simp add: step_def Let_def handleMouseUp_def commit_def in_sync_def)

lemma move_without_listeners:
  "listeners c = None \<Longrightarrow> step c (DocumentMouseMove px2 py2) = (c, [])"
  by (simp add: step_def Let_def)

lemma drag_after_down:
  fixes c :: component and px py :: number
  assumes "\<not> locked c" and "\<forall>ev \<in> set evs. continues_drag ev"
  defines "h1 \<equiv> (state c)\<lparr> isDragging := True,
                  dragOffset := \<lparr> offset_x = px - prop_x (props c),
                                  offset_y = py - prop_y (props c) \<rparr> \<rparr>"
  shows "listeners (fst (run c (MouseDown px py # evs))) = Some (destructure (props c), h1) \<and>
         isDragging (state (fst (run c (MouseDown px py # evs)))) \<and>
         in_sync (fst (run c (MouseDown px py # evs)))"
proof -
  let ?c1 = "fst (step c (MouseDown px py))"
  have c1: "in_sync ?c1" "listeners ?c1 = Some (destructure (props c), h1)"
    "isDragging (state ?c1)"
    using step_MouseDown_unlocked [OF assms(1), of px py]
    by (simp_all add: in_sync_def h1_def)
  from run_continues [OF assms(2) c1(1) c1(2)] c1(3) show ?thesis
    by (simp add: split_beta)
qed

text \<open>
  Claim C1. On an element that is not locked and has an \<open>onUpdate\<close> callback, a
  pointer-down at \<open>(px, py)\<close> stores the offset \<open>(px - x0, py - y0)\<close>, where \<open>(x0, y0)\<close> is
  the element's position at that moment. After any further events short of the pointer
  going up or down again, the component is still dragging and a pointer-move to
  \<open>(px2, py2)\<close> calls \<open>onUpdate\<close> exactly once, with the element's id and the position
  \<open>(px2 - (px - x0), py2 - (py - y0))\<close>.
\<close>

theorem drag_requests_position:
  assumes "\<not> locked c" and "prop_onUpdate (props c)"
    and "\<forall>ev \<in> set evs. continues_drag ev"
  shows "dragOffset (state (fst (step c (MouseDown px py)))) =
           \<lparr> offset_x = px - prop_x (props c), offset_y = py - prop_y (props c) \<rparr> \<and>
         isDragging (state (fst (run c (MouseDown px py # evs)))) \<and>
         snd (step (fst (run c (MouseDown px py # evs))) (DocumentMouseMove px2 py2)) =
           [OnUpdate (prop_id (props c))
              (Position (px2 - (px - prop_x (props c))) (py2 - (py - prop_y (props c))))]"
proof -
  let ?h1 = "(state c)\<lparr> isDragging := True,
                  dragOffset := \<lparr> offset_x = px - prop_x (props c),
                                  offset_y = py - prop_y (props c) \<rparr> \<rparr>"
  have off: "dragOffset (state (fst (step c (MouseDown px py)))) =
           \<lparr> offset_x = px - prop_x (props c), offset_y = py - prop_y (props c) \<rparr>"
    using step_MouseDown_unlocked [OF assms(1), of px py] by simp
  from drag_after_down [OF assms(1) assms(3), of px py]
  have l: "listeners (fst (run c (MouseDown px py # evs))) = Some (destructure (props c), ?h1)"
    and d: "isDragging (state (fst (run c (MouseDown px py # evs))))" by simp_all
  have "snd (step (fst (run c (MouseDown px py # evs))) (DocumentMouseMove px2 py2)) =
           [OnUpdate (el_id (destructure (props c)))
              (Position (px2 - offset_x (dragOffset ?h1)) (py2 - offset_y (dragOffset ?h1)))]"
    using assms(1) assms(2) by (intro move_in_drag [OF l]) (simp_all add: locked_def destructure_def)
  then have m: "snd (step (fst (run c (MouseDown px py # evs))) (DocumentMouseMove px2 py2)) =
           [OnUpdate (prop_id (props c))
              (Position (px2 - (px - prop_x (props c))) (py2 - (py - prop_y (props c))))]"
    by (simp add: destructure_def)
  from off d m show ?thesis by blast
qed

theorem drag_requests_position_witness:
  "snd (step (fst (run (mount (sample_props Rectangle))
                     [MouseDown 15 26, DocumentMouseMove 50 60, MouseEnter]))
          (DocumentMouseMove 100 200)) = [OnUpdate ''e1'' (Position 95 194)] \<and>
   dragOffset (state (fst (step (mount (sample_props Rectangle)) (MouseDown 15 26)))) =
     \<lparr> offset_x = 5, offset_y = 6 \<rparr>"
  using drag_requests_position
    [of "mount (sample_props Rectangle)" "[DocumentMouseMove 50 60, MouseEnter]" 15 26 100 200]
  by (simp add: locked_def destructure_def mount_def sample_props_def)

text \<open>
  Claim C2. A drag starts on an unlocked element; later the parent passes props that
  lock it, and it stays locked. The document listeners are still those registered when
  the drag started, because the effect's dependencies have not changed, and they still
  see the element unlocked. So the component is still dragging, every pointer-move
  still calls \<open>onUpdate\<close> with the position computed from the captured offset, and this
  lasts until the pointer goes up: that ends the drag, and pointer-moves after it do
  nothing.
\<close>

theorem lock_during_drag:
  fixes c :: component and p :: CanvasElementProps and evs1 evs2 :: "event list"
    and px py :: number
  assumes "\<not> locked c" and "prop_onUpdate (props c)"
    and "\<forall>ev \<in> set evs1. continues_drag ev"
    and "el_locked (destructure p)"
    and "\<forall>ev \<in> set evs2. continues_drag ev \<and> keeps_locked ev"
  defines "c' \<equiv> fst (run c (MouseDown px py # evs1 @ Props p # evs2))"
  shows "locked c' \<and> isDragging (state c') \<and>
         snd (step c' (DocumentMouseMove px2 py2)) =
           [OnUpdate (prop_id (props c))
              (Position (px2 - (px - prop_x (props c))) (py2 - (py - prop_y (props c))))] \<and>
         \<not> isDragging (state (fst (step c' DocumentMouseUp))) \<and>
         step (fst (step c' DocumentMouseUp)) (DocumentMouseMove px2 py2) =
           (fst (step c' DocumentMouseUp), [])"
proof -
  let ?h1 = "(state c)\<lparr> isDragging := True,
                  dragOffset := \<lparr> offset_x = px - prop_x (props c),
                                  offset_y = py - prop_y (props c) \<rparr> \<rparr>"
  let ?mid = "fst (run c (MouseDown px py # evs1))"
  have all: "\<forall>ev \<in> set (evs1 @ Props p # evs2). continues_drag ev"
    using assms(3) assms(5) by auto
  have c': "c' = fst (run c (MouseDown px py # (evs1 @ Props p # evs2)))"
    by (simp add: c'_def)
  from drag_after_down [OF assms(1) all, of px py]
  have l: "listeners c' = Some (destructure (props c), ?h1)"
    and d: "isDragging (state c')" and sy: "in_sync c'" unfolding c' by simp_all
  have split: "c' = fst (run (fst (step ?mid (Props p))) evs2)"
    unfolding c'_def using fst_run_append [of c "MouseDown px py # evs1" "Props p # evs2"]
    by (simp add: split_beta)
  have "locked (fst (step ?mid (Props p)))"
    using assms(4) by (simp add: locked_def props_step)
  then have lk: "locked c'"
    unfolding split using assms(5) by (intro run_keeps_locked) simp_all
  have "snd (step c' (DocumentMouseMove px2 py2)) =
           [OnUpdate (el_id (destructure (props c)))
              (Position (px2 - offset_x (dragOffset ?h1)) (py2 - offset_y (dragOffset ?h1)))]"
    using assms(1) assms(2) by (intro move_in_drag [OF l]) (simp_all add: locked_def destructure_def)
  then have m: "snd (step c' (DocumentMouseMove px2 py2)) =
           [OnUpdate (prop_id (props c))
              (Position (px2 - (px - prop_x (props c))) (py2 - (py - prop_y (props c))))]"
    by (simp add: destructure_def)
  from up_ends_drag [OF l sy d]
  have u: "\<not> isDragging (state (fst (step c' DocumentMouseUp)))"
    and n: "listeners (fst (step c' DocumentMouseUp)) = None" by simp_all
  from lk d m u move_without_listeners [OF n] show ?thesis by blast
qed

theorem lock_during_drag_witness:
  "snd (step (fst (run (mount (sample_props Sticky))
                     [MouseDown 15 26, DocumentMouseMove 50 60,
                      Props ((sample_props Sticky)\<lparr> prop_locked := Some True \<rparr>),
                      Props ((sample_props Sticky)\<lparr> prop_locked := Some True, prop_x := 45 \<rparr>)]))
          (DocumentMouseMove 100 200)) = [OnUpdate ''e1'' (Position 95 194)]"
  using lock_during_drag
    [of "mount (sample_props Sticky)" "[DocumentMouseMove 50 60]"
        "(sample_props Sticky)\<lparr> prop_locked := Some True \<rparr>"
        "[Props ((sample_props Sticky)\<lparr> prop_locked := Some True, prop_x := 45 \<rparr>)]"
        15 26 100 200]
  by (simp add: locked_def destructure_def mount_def sample_props_def)

lemma step_locked_idle:
  assumes "locked c" and "\<not> isDragging (state c)" and "\<not> isEditing (state c)"
    and "keeps_locked ev"
  shows "\<not> isDragging (state (fst (step c ev))) \<and> \<not> isEditing (state (fst (step c ev)))"
  using assms
  by (cases ev)
     (auto simp: step_def Let_def locked_def handleMouseDown_def handleDoubleClick_def
        contentClick_def textareaKeyDown_def handleMouseUp_def split: option.split)

text \<open>
  Claim C3. From a locked element that is neither dragging nor editing, no sequence of
  events during which the element stays locked (pointer-downs, double-clicks, clicks on
  the content, keys, document events, new props that are still locked) makes it
  dragging or editing.
\<close>

theorem locked_idle_stays_idle:
  assumes "locked c" and "\<not> isDragging (state c)" and "\<not> isEditing (state c)"
    and "\<forall>ev \<in> set evs. keeps_locked ev"
  shows "locked (fst (run c evs)) \<and>
         \<not> isDragging (state (fst (run c evs))) \<and>
         \<not> isEditing (state (fst (run c evs)))"
  using assms
proof (induction evs arbitrary: c)
  case Nil
  then show ?case by simp
next
  case (Cons ev evs)
  from Cons.prems have ev: "keeps_locked ev" and rest: "\<forall>e \<in> set evs. keeps_locked e"
    by simp_all
  from step_locked_idle [OF Cons.prems(1) Cons.prems(2) Cons.prems(3) ev]
  have s: "\<not> isDragging (state (fst (step c ev)))" "\<not> isEditing (state (fst (step c ev)))"
    by simp_all
  from Cons.IH [OF step_keeps_locked [OF Cons.prems(1) ev] s rest] show ?case
    by (simp add: split_beta)
qed

theorem locked_idle_stays_idle_witness:
  "\<not> isDragging (state (fst (run (mount ((sample_props Sticky)\<lparr> prop_locked := Some True \<rparr>))
        [MouseDown 15 26, DoubleClick, ContentClick, DocumentMouseMove 3 4]))) \<and>
   \<not> isEditing (state (fst (run (mount ((sample_props Sticky)\<lparr> prop_locked := Some True \<rparr>))
        [MouseDown 15 26, DoubleClick, ContentClick, DocumentMouseMove 3 4])))"
  using locked_idle_stays_idle
    [of "mount ((sample_props Sticky)\<lparr> prop_locked := Some True \<rparr>)"
        "[MouseDown 15 26, DoubleClick, ContentClick, DocumentMouseMove 3 4]"]
  by (simp add: locked_def destructure_def mount_def sample_props_def initial_hooks_def)

lemma sticky_view:
  "el_type el = Sticky \<Longrightarrow>
     map_option node_inner (renderElement el h) =
       Some (if isEditing h then Textarea (el_content el)
             else ContentDiv (or_else (el_content el) ''Double-click to edit'') True)"
  by (simp add: renderElement_def)

lemma content_click_only_sticky:
  "el_type el \<noteq> Sticky \<Longrightarrow> renderElement el h = Some n \<Longrightarrow> \<not> has_content_click n"
  by (cases "el_type el")
     (auto simp: renderElement_def renderKanbanBoard_def renderPen_def has_content_click_def
        Let_def split: option.splits list.splits if_splits)

text \<open>
  Claim C10. On a sticky note that is neither locked nor being edited, the content area
  takes clicks, and one click turns editing on: the next view shows the textarea. On a
  locked element the click changes no state and calls nothing. For every other kind,
  text included, the view has no content area that takes clicks, so the click does
  nothing at all.
\<close>

theorem sticky_click_enters_editing:
  "(prop_type (props c) = Sticky \<and> \<not> locked c \<and> \<not> isEditing (state c) \<longrightarrow>
      enabled (CanvasElement c) ContentClick \<and>
      isEditing (state (fst (fire c ContentClick))) \<and>
      on_node (CanvasElement (fst (fire c ContentClick))) has_textarea) \<and>
   (locked c \<longrightarrow>
      state (fst (fire c ContentClick)) = state c \<and> snd (fire c ContentClick) = []) \<and>
   (prop_type (props c) \<noteq> Sticky \<longrightarrow>
      \<not> enabled (CanvasElement c) ContentClick \<and> fire c ContentClick = (c, []))"
proof (intro conjI impI)
  assume a: "prop_type (props c) = Sticky \<and> \<not> locked c \<and> \<not> isEditing (state c)"
  then have ty: "el_type (destructure (props c)) = Sticky"
    by (simp add: destructure_def)
  from a sticky_view [OF ty, of "state c"]
  show en: "enabled (CanvasElement c) ContentClick"
    by (auto simp: CanvasElement_def Let_def on_node_def has_content_click_def)
  from a en have st: "state (fst (fire c ContentClick)) = (state c)\<lparr> isEditing := True \<rparr>"
    and pr: "props (fst (fire c ContentClick)) = props c"
    by (simp_all add: fire_def step_def Let_def contentClick_def locked_def)
  from st show "isEditing (state (fst (fire c ContentClick)))" by simp
  from sticky_view [OF ty, of "(state c)\<lparr> isEditing := True \<rparr>"]
  show "on_node (CanvasElement (fst (fire c ContentClick))) has_textarea"
    by (auto simp: CanvasElement_def Let_def on_node_def has_textarea_def st pr)
next
  assume "locked c"
  then show "state (fst (fire c ContentClick)) = state c"
    and "snd (fire c ContentClick) = []"
    by (simp_all add: fire_def step_def Let_def contentClick_def locked_def)
next
  assume "prop_type (props c) \<noteq> Sticky"
  then have ty: "el_type (destructure (props c)) \<noteq> Sticky"
    by (simp add: destructure_def)
  show ne: "\<not> enabled (CanvasElement c) ContentClick"
    using content_click_only_sticky [OF ty]
    by (auto simp: CanvasElement_def Let_def on_node_def split: option.splits)
  then show "fire c ContentClick = (c, [])"
    by (simp add: fire_def)
qed

theorem sticky_click_enters_editing_witness:
  "isEditing (state (fst (fire (mount (sample_props Sticky)) ContentClick))) \<and>
   \<not> isEditing (state (fst (fire (mount ((sample_props Sticky)\<lparr> prop_locked := Some True \<rparr>))
                               ContentClick))) \<and>
   fire (mount (sample_props Text)) ContentClick = (mount (sample_props Text), [])"
  using sticky_click_enters_editing [where c = "mount (sample_props Sticky)"]
    sticky_click_enters_editing
      [where c = "mount ((sample_props Sticky)\<lparr> prop_locked := Some True \<rparr>)"]
    sticky_click_enters_editing [where c = "mount (sample_props Text)"]
  by (simp add: locked_def destructure_def mount_def sample_props_def initial_hooks_def)

section \<open>Properties of rendering\<close>

lemma foldl_min_Min: "foldl min x xs = Min (insert x (set xs))"
proof (induction xs arbitrary: x)
  case Nil
  then show ?case by simp
next
  case (Cons y ys)
  have "foldl min x (y # ys) = Min (insert (min x y) (set ys))"
    by (simp add: Cons.IH)
  also have "\<dots> = Min (insert x (insert y (set ys)))"
    by (cases "set ys = {}") (simp_all add: min.assoc)
  finally show ?case by simp
qed

lemma foldl_max_Max: "foldl max x xs = Max (insert x (set xs))"
proof (induction xs arbitrary: x)
  case Nil
  then show ?case by simp
next
  case (Cons y ys)
  have "foldl max x (y # ys) = Max (insert (max x y) (set ys))"
    by (simp add: Cons.IH)
  also have "\<dots> = Max (insert x (insert y (set ys)))"
    by (cases "set ys = {}") (simp_all add: max.assoc)
  finally show ?case by simp
qed

lemma Math_min_Min: "Math_min (f p) (map f ps) = Min (f ` set (p # ps))"
  by (simp add: Math_min_def foldl_min_Min)

lemma Math_max_Max: "Math_max (f p) (map f ps) = Max (f ` set (p # ps))"
  by (simp add: Math_max_def foldl_max_Max)

lemma renderElement_Pen: "el_type el = Pen \<Longrightarrow> renderElement el h = renderPen el"
  by (simp add: renderElement_def)

lemma renderPen_Cons:
  assumes "el_points el = p # q # qs"
  shows "renderPen el =
     Some \<lparr> node_left = Math_min (point_x p) (map point_x (q # qs)),
            node_top = Math_min (point_y p) (map point_y (q # qs)),
            node_width = Some (Px (Math_max (point_x p) (map point_x (q # qs)) -
                                   Math_min (point_x p) (map point_x (q # qs)))),
            node_height = Some (Px (Math_max (point_y p) (map point_y (q # qs)) -
                                    Math_min (point_y p) (map point_y (q # qs)))),
            node_rotation = el_rotation el,
            node_backgroundColor = None, node_borderColor = None,
            node_inner =
              PenSvg (Math_max (point_x p) (map point_x (q # qs)) -
                      Math_min (point_x p) (map point_x (q # qs)))
                     (Math_max (point_y p) (map point_y (q # qs)) -
                      Math_min (point_y p) (map point_y (q # qs)))
                     (path_d (map (\<lambda>r. (point_x r - Math_min (point_x p) (map point_x (q # qs)),
                                         point_y r - Math_min (point_y p) (map point_y (q # qs))))
                                (el_points el)))
                     (el_color el) (el_strokeWidth el),
            node_onDoubleClick = False,
            node_handles = 0 \<rparr>"
  using assms by (simp add: renderPen_def Let_def)

lemma renderPen_extent:
  assumes "2 \<le> length (el_points el)"
  shows "renderPen el =
     Some \<lparr> node_left = Min (point_x ` set (el_points el)),
            node_top = Min (point_y ` set (el_points el)),
            node_width = Some (Px (Max (point_x ` set (el_points el)) -
                                   Min (point_x ` set (el_points el)))),
            node_height = Some (Px (Max (point_y ` set (el_points el)) -
                                    Min (point_y ` set (el_points el)))),
            node_rotation = el_rotation el,
            node_backgroundColor = None, node_borderColor = None,
            node_inner =
              PenSvg (Max (point_x ` set (el_points el)) - Min (point_x ` set (el_points el)))
                     (Max (point_y ` set (el_points el)) - Min (point_y ` set (el_points el)))
                     (path_d (map (\<lambda>r. (point_x r - Min (point_x ` set (el_points el)),
                                         point_y r - Min (point_y ` set (el_points el))))
                                (el_points el)))
                     (el_color el) (el_strokeWidth el),
            node_onDoubleClick = False,
            node_handles = 0 \<rparr>"
proof -
  from assms obtain p q qs where pts: "el_points el = p # q # qs"
    by (cases "el_points el"; cases "tl (el_points el)") auto
  show ?thesis
    by (simp only: renderPen_Cons [OF pts] Math_min_Min [of point_x] Math_min_Min [of point_y]
        Math_max_Max [of point_x] Math_max_Max [of point_y] pts [symmetric])
qed

text \<open>
  Claim C4. A pen element with at least two points is rendered in the box spanned by its
  points: \<open>left\<close> is the least \<open>x\<close>, \<open>top\<close> the least \<open>y\<close>, the width and height are the
  differences between the greatest and the least coordinate, and the path goes through
  the points moved by \<open>(- min x, - min y)\<close>. For the points \<open>(0,0), (10,0), (10,10)\<close> the
  box runs from \<open>(0, 0)\<close> to \<open>(10, 10)\<close> and the path starts at \<open>(0, 0)\<close>.
\<close>

theorem pen_bounding_box:
  "(el_type el = Pen \<and> 2 \<le> length (el_points el) \<longrightarrow>
      renderElement el h =
        Some \<lparr> node_left = Min (point_x ` set (el_points el)),
               node_top = Min (point_y ` set (el_points el)),
               node_width = Some (Px (Max (point_x ` set (el_points el)) -
                                      Min (point_x ` set (el_points el)))),
               node_height = Some (Px (Max (point_y ` set (el_points el)) -
                                       Min (point_y ` set (el_points el)))),
               node_rotation = el_rotation el,
               node_backgroundColor = None, node_borderColor = None,
               node_inner =
                 PenSvg (Max (point_x ` set (el_points el)) - Min (point_x ` set (el_points el)))
                        (Max (point_y ` set (el_points el)) - Min (point_y ` set (el_points el)))
                        (path_d (map (\<lambda>r. (point_x r - Min (point_x ` set (el_points el)),
                                            point_y r - Min (point_y ` set (el_points el))))
                                   (el_points el)))
                        (el_color el) (el_strokeWidth el),
               node_onDoubleClick = False,
               node_handles = 0 \<rparr>) \<and>
   renderElement
     (el\<lparr> el_type := Pen,
          el_points := [\<lparr> point_x = 0, point_y = 0 \<rparr>, \<lparr> point_x = 10, point_y = 0 \<rparr>,
                        \<lparr> point_x = 10, point_y = 10 \<rparr>] \<rparr>) h =
     Some \<lparr> node_left = 0, node_top = 0,
            node_width = Some (Px 10), node_height = Some (Px 10),
            node_rotation = el_rotation el,
            node_backgroundColor = None, node_borderColor = None,
            node_inner = PenSvg 10 10 [MoveTo 0 0, LineTo 10 0, LineTo 10 10]
                           (el_color el) (el_strokeWidth el),
            node_onDoubleClick = False,
            node_handles = 0 \<rparr>"
proof (intro conjI impI)
  assume "el_type el = Pen \<and> 2 \<le> length (el_points el)"
  then show "renderElement el h =
        Some \<lparr> node_left = Min (point_x ` set (el_points el)),
               node_top = Min (point_y ` set (el_points el)),
               node_width = Some (Px (Max (point_x ` set (el_points el)) -
                                      Min (point_x ` set (el_points el)))),
               node_height = Some (Px (Max (point_y ` set (el_points el)) -
                                       Min (point_y ` set (el_points el)))),
               node_rotation = el_rotation el,
               node_backgroundColor = None, node_borderColor = None,
               node_inner =
                 PenSvg (Max (point_x ` set (el_points el)) - Min (point_x ` set (el_points el)))
                        (Max (point_y ` set (el_points el)) - Min (point_y ` set (el_points el)))
                        (path_d (map (\<lambda>r. (point_x r - Min (point_x ` set (el_points el)),
                                            point_y r - Min (point_y ` set (el_points el))))
                                   (el_points el)))
                        (el_color el) (el_strokeWidth el),
               node_onDoubleClick = False,
               node_handles = 0 \<rparr>"
    by (simp add: renderElement_Pen renderPen_extent)
next
  show "renderElement
     (el\<lparr> el_type := Pen,
          el_points := [\<lparr> point_x = 0, point_y = 0 \<rparr>, \<lparr> point_x = 10, point_y = 0 \<rparr>,
                        \<lparr> point_x = 10, point_y = 10 \<rparr>] \<rparr>) h =
     Some \<lparr> node_left = 0, node_top = 0,
            node_width = Some (Px 10), node_height = Some (Px 10),
            node_rotation = el_rotation el,
            node_backgroundColor = None, node_borderColor = None,
            node_inner = PenSvg 10 10 [MoveTo 0 0, LineTo 10 0, LineTo 10 10]
                           (el_color el) (el_strokeWidth el),
            node_onDoubleClick = False,
            node_handles = 0 \<rparr>"
    by (simp add: renderElement_Pen renderPen_def Math_min_def Math_max_def)
qed

theorem pen_bounding_box_witness:
  "map_option node_left
     (renderElement
        (destructure ((sample_props Pen)\<lparr> prop_points :=
           Some [\<lparr> point_x = 3, point_y = 9 \<rparr>, \<lparr> point_x = 1, point_y = 4 \<rparr>] \<rparr>))
        initial_hooks) = Some 1 \<and>
   map_option node_height
     (renderElement
        (destructure ((sample_props Pen)\<lparr> prop_points :=
           Some [\<lparr> point_x = 3, point_y = 9 \<rparr>, \<lparr> point_x = 1, point_y = 4 \<rparr>] \<rparr>))
        initial_hooks) = Some (Some (Px 5))"
  using pen_bounding_box
    [where el = "destructure ((sample_props Pen)\<lparr> prop_points :=
           Some [\<lparr> point_x = 3, point_y = 9 \<rparr>, \<lparr> point_x = 1, point_y = 4 \<rparr>] \<rparr>)"
       and h = initial_hooks]
  by (simp add: destructure_def sample_props_def)

text \<open>
  Claim C5, as stated, fails on a selected element: for a selected pen with one point the
  shape is absent, but the component still renders the lock button (lines 543 to 561
  test only \<open>isSelected || isHovered\<close> and the kind), here at \<open>(10, 20 - 48)\<close>.
\<close>

theorem short_pen_selected_shows_lock:
  "CanvasElement
     (mount ((sample_props Pen)\<lparr> prop_points := Some [\<lparr> point_x = 3, point_y = 9 \<rparr>],
                                 prop_isSelected := Some True \<rparr>)) =
     \<lparr> view_element = None,
       view_controls =
         Some \<lparr> controls_left = 10, controls_top = - 28, controls_title = ''Lock'' \<rparr> \<rparr>"
  by (simp add: CanvasElement_def Let_def renderElement_def renderPen_def destructure_def
      mount_def sample_props_def initial_hooks_def)

text \<open>
  Claim C5, amended. A pen element with fewer than two points, the empty list and a
  single point included, draws no shape: \<open>renderElement\<close> returns \<open>null\<close>, which is a value
  and not an error. What the component then shows is the lock button alone, and that
  exactly when the element is selected or hovered; otherwise it shows nothing.
\<close>

theorem short_pen_view:
  "prop_type (props c) = Pen \<Longrightarrow> length (el_points (destructure (props c))) < 2 \<Longrightarrow>
     renderElement (destructure (props c)) (state c) = None \<and>
     view_element (CanvasElement c) = None \<and>
     (view_controls (CanvasElement c) \<noteq> None \<longleftrightarrow>
        el_isSelected (destructure (props c)) \<or> isHovered (state c))"
  by (simp add: CanvasElement_def Let_def renderElement_def renderPen_def destructure_def)

theorem short_pen_view_witness:
  "CanvasElement
     (mount ((sample_props Pen)\<lparr> prop_points := Some [\<lparr> point_x = 3, point_y = 9 \<rparr>] \<rparr>)) =
     \<lparr> view_element = None, view_controls = None \<rparr> \<and>
   view_element (CanvasElement (mount (sample_props Pen))) = None"
proof -
  have "view_controls (CanvasElement
     (mount ((sample_props Pen)\<lparr> prop_points := Some [\<lparr> point_x = 3, point_y = 9 \<rparr>] \<rparr>))) =
     None"
    using short_pen_view
      [where c = "mount ((sample_props Pen)\<lparr> prop_points :=
                    Some [\<lparr> point_x = 3, point_y = 9 \<rparr>] \<rparr>)"]
    by (simp add: destructure_def mount_def sample_props_def initial_hooks_def)
  moreover have "view_element (CanvasElement
     (mount ((sample_props Pen)\<lparr> prop_points := Some [\<lparr> point_x = 3, point_y = 9 \<rparr>] \<rparr>))) =
     None"
    using short_pen_view
      [where c = "mount ((sample_props Pen)\<lparr> prop_points :=
                    Some [\<lparr> point_x = 3, point_y = 9 \<rparr>] \<rparr>)"]
    by (simp add: destructure_def mount_def sample_props_def)
  moreover have "view_element (CanvasElement (mount (sample_props Pen))) = None"
    using short_pen_view [where c = "mount (sample_props Pen)"]
    by (simp add: destructure_def mount_def sample_props_def)
  ultimately show ?thesis
    by (cases "CanvasElement
     (mount ((sample_props Pen)\<lparr> prop_points := Some [\<lparr> point_x = 3, point_y = 9 \<rparr>] \<rparr>))")
       simp
qed

lemma foldl_count:
  "foldl (\<lambda>total col. total + length (cards col)) a cols =
     a + sum_list (map (\<lambda>col. length (cards col)) cols)"
  by (induction cols arbitrary: a) simp_all

lemma taskCount_sum:
  "taskCount d = sum_list (map (\<lambda>col. length (cards col)) (columns d))"
  by (simp add: taskCount_def foldl_count)

text \<open>
  Claim C6, as stated, fails on a locked board: the header of a locked kanban element
  holds no task-count badge at all (line 160 renders it under \<open>!locked\<close>).
\<close>

theorem locked_kanban_no_badge:
  "map_option node_inner
     (renderElement
        (destructure ((sample_props Kanban)\<lparr> prop_locked := Some True,
                                            prop_kanbanData := Some sample_board \<rparr>))
        initial_hooks) = Some (KanbanBoard None sample_board True)"
  by (simp add: renderElement_def renderKanbanBoard_def destructure_def sample_props_def)

text \<open>
  Claim C6, amended. For every kanban element with board data that is not locked, the
  badge in the header is the sum over the columns of the number of their cards, computed
  from the board of the render at hand; a locked kanban element renders no badge.
\<close>

theorem kanban_badge:
  "el_type el = Kanban \<Longrightarrow> el_kanbanData el = Some d \<Longrightarrow>
     map_option node_inner (renderElement el h) =
       Some (KanbanBoard
               (if el_locked el then None
                else Some (sum_list (map (\<lambda>col. length (cards col)) (columns d))))
               d (el_locked el))"
  by (simp add: renderElement_def renderKanbanBoard_def taskCount_sum)

theorem kanban_badge_witness:
  "map_option node_inner
     (renderElement
        (destructure ((sample_props Kanban)\<lparr> prop_kanbanData := Some sample_board \<rparr>))
        initial_hooks) = Some (KanbanBoard (Some 3) sample_board False)"
  using kanban_badge
    [where el = "destructure ((sample_props Kanban)\<lparr> prop_kanbanData := Some sample_board \<rparr>)"
       and d = sample_board and h = initial_hooks]
  by (simp add: destructure_def sample_props_def sample_board_def numeral_3_eq_3)

text \<open>
  Claim C9, as stated, fails on a text element: with width and height absent, both
  default to 100, and lines 337 and 338 then render \<open>auto\<close> for them, not 100.
\<close>

theorem text_default_size_is_auto:
  "map_option node_width (renderElement (destructure (sample_props Text)) initial_hooks) =
     Some (Some Auto) \<and>
   map_option node_height (renderElement (destructure (sample_props Text)) initial_hooks) =
     Some (Some Auto)"
  by (simp add: renderElement_def destructure_def sample_props_def)

text \<open>
  Claim C9, amended. An absent width or height defaults to 100, an absent colour to
  \<open>#6366f1\<close>, an absent stroke width to 2. A rectangle, circle, frame, sticky note or
  kanban board with defaulted size is rendered 100 wide and 100 high. A text element
  whose width is 100, by default or not, is rendered with width \<open>auto\<close>, and likewise for
  its height.
\<close>

theorem defaults_and_size:
  "(prop_width p = None \<longrightarrow> el_width (destructure p) = 100) \<and>
   (prop_height p = None \<longrightarrow> el_height (destructure p) = 100) \<and>
   (prop_color p = None \<longrightarrow> el_color (destructure p) = ''#6366f1'') \<and>
   (prop_strokeWidth p = None \<longrightarrow> el_strokeWidth (destructure p) = 2) \<and>
   (prop_width p = None \<and> prop_height p = None \<and>
    prop_type p \<in> {Rectangle, Circle, Frame, Sticky, Kanban} \<and>
    renderElement (destructure p) h = Some n \<longrightarrow>
      node_width n = Some (Px 100) \<and> node_height n = Some (Px 100)) \<and>
   (prop_type p = Text \<and> renderElement (destructure p) h = Some n \<longrightarrow>
      (el_width (destructure p) = 100 \<longrightarrow> node_width n = Some Auto) \<and>
      (el_height (destructure p) = 100 \<longrightarrow> node_height n = Some Auto))"
proof (intro conjI impI)
  assume "prop_width p = None \<and> prop_height p = None \<and>
    prop_type p \<in> {Rectangle, Circle, Frame, Sticky, Kanban} \<and>
    renderElement (destructure p) h = Some n"
  then show "node_width n = Some (Px 100)" "node_height n = Some (Px 100)"
    by (auto simp: renderElement_def renderKanbanBoard_def destructure_def
        split: option.splits)
next
  assume a: "prop_type p = Text \<and> renderElement (destructure p) h = Some n"
  {
    assume "el_width (destructure p) = 100"
    with a show "node_width n = Some Auto"
      by (auto simp: renderElement_def destructure_def)
  }
  {
    assume "el_height (destructure p) = 100"
    with a show "node_height n = Some Auto"
      by (auto simp: renderElement_def destructure_def)
  }
qed (simp_all add: destructure_def)

theorem defaults_and_size_witness:
  "el_width (destructure (sample_props Sticky)) = 100 \<and>
   el_color (destructure (sample_props Sticky)) = ''#6366f1'' \<and>
   el_strokeWidth (destructure (sample_props Sticky)) = 2 \<and>
   map_option node_width (renderElement (destructure (sample_props Sticky)) initial_hooks) =
     Some (Some (Px 100)) \<and>
   map_option node_width (renderElement (destructure (sample_props Text)) initial_hooks) =
     Some (Some Auto)"
proof -
  obtain n where n: "renderElement (destructure (sample_props Sticky)) initial_hooks = Some n"
    by (simp add: renderElement_def destructure_def sample_props_def)
  obtain m where m: "renderElement (destructure (sample_props Text)) initial_hooks = Some m"
    by (simp add: renderElement_def destructure_def sample_props_def)
  from defaults_and_size [where p = "sample_props Sticky" and h = initial_hooks and n = n]
    defaults_and_size [where p = "sample_props Text" and h = initial_hooks and n = m] n m
  show ?thesis
    by (simp add: sample_props_def)
qed

end
